theory Spec2Isabelle
  imports Main
begin

section \<open>PetWorld models assembly: data model\<close>

text \<open>
  Embedding of \<^verbatim>\<open>src/extensions/petworld/model.ts\<close>. Functions imported from other
  modules (\<^verbatim>\<open>getMatrices\<close>, \<^verbatim>\<open>operatorGroupsProvider\<close>, \<^verbatim>\<open>Structure.ofModel\<close>, ...) are
  parameters of the definitions that call them. A thrown exception is the \<open>Inl\<close> branch
  of a sum.
\<close>

text \<open>
  The failures of the imported table functions, as the specification names them (building
  the operator matrices, parsing an operator expression), and the errors
  \<^verbatim>\<open>buildModelsAssembly\<close> can end with.
\<close>

datatype import_error = MalformedOperatorRecord | InvalidExpression

datatype error =
    FrameResolutionError
  | Imported import_error
  | AssemblyNotFound string
  | TypeError

text \<open>
  Tables are column oriented, as \<^verbatim>\<open>Table<Schema>\<close> is: a row count and one accessor
  \<^verbatim>\<open>column.value(i)\<close> per column.
\<close>

record StructAssembly =
  sa_rowCount :: nat
  sa_id :: "nat \<Rightarrow> string"
  sa_details :: "nat \<Rightarrow> string"

record StructAssemblyGen =
  gen_rowCount :: nat
  assembly_id :: "nat \<Rightarrow> string"
  oper_expression :: "nat \<Rightarrow> string"
  asym_id_list :: "nat \<Rightarrow> string list"

text \<open>\<^verbatim>\<open>CifField\<close>, read through \<^verbatim>\<open>int(row)\<close> and \<^verbatim>\<open>str(row)\<close>.\<close>

record CifField =
  int_at :: "nat \<Rightarrow> int"
  str_at :: "int \<Rightarrow> string"

record Generator =
  assemblyId :: string
  expression :: string
  asymIds :: "string list"

record 'op OperatorGroup =
  operators :: "'op list"

text \<open>
  \<^verbatim>\<open>Assembly.create(id, details, provider)\<close>: the provider is a thunk that the
  \<^verbatim>\<open>operatorGroups\<close> getter runs on access, so a failure of the provider surfaces where
  \<^verbatim>\<open>assembly.operatorGroups\<close> is read.
\<close>

record 'op Assembly =
  asm_id :: string
  asm_details :: string
  operatorGroups :: "import_error + 'op OperatorGroup list"

record 'op ModelsAssembly =
  assembly :: "'op Assembly"
  modelNums :: "int list"

section \<open>Building the models assemblies from the tables\<close>

text \<open>One iteration of the loop over the generator rows in \<^verbatim>\<open>createModelsAssembly\<close>.\<close>

definition gen_step ::
  "StructAssemblyGen \<Rightarrow> CifField \<Rightarrow> string \<Rightarrow> nat \<Rightarrow>
   Generator list \<times> int list \<Rightarrow> Generator list \<times> int list" where
  "gen_step pdbx_struct_assembly_gen PDB_model_num ident i acc =
     (if assembly_id pdbx_struct_assembly_gen i \<noteq> ident then acc
      else (fst acc @ [\<lparr>assemblyId = ident,
                        expression = oper_expression pdbx_struct_assembly_gen i,
                        asymIds = asym_id_list pdbx_struct_assembly_gen i\<rparr>],
            snd acc @ [int_at PDB_model_num i]))"

definition createModelsAssembly ::
  "(Generator list \<Rightarrow> 'mats \<Rightarrow> import_error + 'op OperatorGroup list) \<Rightarrow>
   StructAssembly \<Rightarrow> StructAssemblyGen \<Rightarrow> nat \<Rightarrow> 'mats \<Rightarrow> CifField \<Rightarrow> 'op ModelsAssembly" where
  "createModelsAssembly operatorGroupsProvider pdbx_struct_assembly pdbx_struct_assembly_gen
       index matrices PDB_model_num =
     (let ident = sa_id pdbx_struct_assembly index;
          details = sa_details pdbx_struct_assembly index;
          acc = fold (gen_step pdbx_struct_assembly_gen PDB_model_num ident)
                  [0..<gen_rowCount pdbx_struct_assembly_gen] ([], [])
      in \<lparr>assembly = \<lparr>asm_id = ident, asm_details = details,
                       operatorGroups = operatorGroupsProvider (fst acc) matrices\<rparr>,
          modelNums = snd acc\<rparr>)"

definition createModelsAssemblies ::
  "('ol \<Rightarrow> import_error + 'mats) \<Rightarrow>
   (Generator list \<Rightarrow> 'mats \<Rightarrow> import_error + 'op OperatorGroup list) \<Rightarrow>
   StructAssembly \<Rightarrow> StructAssemblyGen \<Rightarrow> 'ol \<Rightarrow> CifField \<Rightarrow>
   import_error + 'op ModelsAssembly list" where
  "createModelsAssemblies getMatrices operatorGroupsProvider pdbx_struct_assembly
       pdbx_struct_assembly_gen pdbx_struct_oper_list PDB_model_num =
     (if sa_rowCount pdbx_struct_assembly = 0 then Inr []
      else case getMatrices pdbx_struct_oper_list of
             Inl e \<Rightarrow> Inl e
           | Inr matrices \<Rightarrow>
               Inr (fold (\<lambda>i assemblies. assemblies @
                            [createModelsAssembly operatorGroupsProvider pdbx_struct_assembly
                               pdbx_struct_assembly_gen i matrices PDB_model_num])
                      [0..<sa_rowCount pdbx_struct_assembly] []))"

section \<open>Models, trajectories and structures\<close>

text \<open>
  A JavaScript array read at an index: \<^verbatim>\<open>xs[i]\<close> is \<^verbatim>\<open>undefined\<close> (here \<open>None\<close>) when
  \<open>i\<close> is negative or not below the length. The model index is a JavaScript number; the
  model takes the integers.
\<close>

definition js_index :: "'a list \<Rightarrow> int \<Rightarrow> 'a option" where
  "js_index xs i = (if 0 \<le> i \<and> nat i < length xs then Some (xs ! nat i) else None)"

text \<open>
  \<^verbatim>\<open>String.prototype.toLowerCase\<close> on the characters of a \<open>string\<close>, which are bytes:
  the letters \<open>A\<close> to \<open>Z\<close> move to \<open>a\<close> to \<open>z\<close>, every other byte stays.
\<close>

definition toLowerCase_char :: "char \<Rightarrow> char" where
  "toLowerCase_char c =
     (if 65 \<le> (of_char c :: nat) \<and> (of_char c :: nat) \<le> 90
      then char_of ((of_char c :: nat) + 32) else c)"

definition toLowerCase :: "string \<Rightarrow> string" where
  "toLowerCase s = map toLowerCase_char s"

text \<open>
  \<^verbatim>\<open>model.entities\<close>: the entity table \<^verbatim>\<open>data\<close> and \<^verbatim>\<open>getEntityIndex\<close>. The description
  column is held as the JavaScript array behind it after \<^verbatim>\<open>Column.asArrayColumn\<close>: a
  partial map from index to value, so that \<^verbatim>\<open>array[idx] = v\<close> is a map update for every
  \<open>idx\<close> (an index beyond the end extends the array, a negative one sets a property).
  The other columns of the table are \<open>other_columns\<close>.
\<close>

record 'e EntityData =
  pdbx_description :: "int \<rightharpoonup> string list"
  other_columns :: 'e

record 'e Entities =
  data :: "'e EntityData"
  getEntityIndex :: "string \<Rightarrow> int"

record 'h AtomicHierarchy =
  label_entity_id :: "string list"
  hierarchy_rest :: 'h

record 'ol Database =
  pdbx_struct_assembly :: StructAssembly
  pdbx_struct_assembly_gen :: StructAssemblyGen
  pdbx_struct_oper_list :: 'ol

text \<open>
  The two fields read from the CIF frame:
  \<^verbatim>\<open>frame.categories.pdbx_model.getField('name')\<close> and
  \<^verbatim>\<open>frame.categories.pdbx_struct_assembly_gen.getField('PDB_model_num')\<close>. The source
  asserts both to be there (\<^verbatim>\<open>!\<close>), and so does the record.
\<close>

record CifFrame =
  pdbx_model_name :: CifField
  gen_PDB_model_num :: CifField

record 'ol MmcifData =
  db :: "'ol Database"
  frame :: CifFrame

text \<open>\<^verbatim>\<open>model.sourceData\<close>; \<^verbatim>\<open>MmcifFormat.is\<close> holds of the first constructor only.\<close>

datatype 'ol SourceData = MmcifFormat "'ol MmcifData" | OtherFormat

record ('e, 'h, 'ol) Model =
  label :: string
  entities :: "'e Entities"
  atomicHierarchy :: "'h AtomicHierarchy"
  sourceData :: "'ol SourceData"

text \<open>
  A trajectory: its frames and the hidden field \<^verbatim>\<open>__modelsAssemblies\<close>, \<open>None\<close> while
  the field is not set (an empty array is truthy in JavaScript, so it counts as set).
  Every frame is a value of its own here: whether the models of a trajectory share their
  entities object is decided where the models are created, outside this file, and nothing
  below speaks about the frames a call did not resolve.
\<close>

record ('e, 'h, 'ol, 'op) Trajectory =
  frames :: "('e, 'h, 'ol) Model list"
  modelsAssemblies :: "'op ModelsAssembly list option"

text \<open>
  Modelled from the spec: \<^verbatim>\<open>trajectory.getFrameAtIndex\<close> is declared outside this file.
  Resolving the model at an index fails with \<open>FrameResolutionError\<close> if the index is out
  of range.
\<close>

definition getFrameAtIndex ::
  "('e, 'h, 'ol, 'op) Trajectory \<Rightarrow> int \<Rightarrow> error + ('e, 'h, 'ol) Model" where
  "getFrameAtIndex trajectory modelIndex =
     (case js_index (frames trajectory) modelIndex of
        None \<Rightarrow> Inl FrameResolutionError
      | Some model \<Rightarrow> Inr model)"

text \<open>
  Modelled from the spec: \<^verbatim>\<open>Structure.Builder\<close> is declared outside this file. The
  assembled structure holds one unit instance per call of \<^verbatim>\<open>addWithOperator\<close>, each
  tagged with the operator it was duplicated under; \<^verbatim>\<open>addWithOperator\<close> appends the
  instance and \<^verbatim>\<open>getStructure\<close> returns what was appended.
\<close>

record ('u, 'op) Structure =
  units :: "('u \<times> 'op) list"

definition addWithOperator :: "('u \<times> 'op) list \<Rightarrow> 'u \<Rightarrow> 'op \<Rightarrow> ('u \<times> 'op) list" where
  "addWithOperator assembler unit oper = assembler @ [(unit, oper)]"

definition getStructure :: "('u \<times> 'op) list \<Rightarrow> ('u, 'op) Structure" where
  "getStructure assembler = \<lparr>units = assembler\<rparr>"

text \<open>The functions \<^verbatim>\<open>buildModelsAssembly\<close> imports from other modules.\<close>

record ('e, 'h, 'ol, 'mats, 'op, 'u) Imports =
  getMatrices :: "'ol \<Rightarrow> import_error + 'mats"
  operatorGroupsProvider :: "Generator list \<Rightarrow> 'mats \<Rightarrow> import_error + 'op OperatorGroup list"
  ofModel :: "('e, 'h, 'ol) Model \<Rightarrow> 'u list"

section \<open>buildModelsAssembly\<close>

text \<open>
  Lines 64 to 75: the model name becomes the label of the model and the description of
  every entity a chain refers to.
\<close>

definition patchEntityDescriptions ::
  "string \<Rightarrow> ('e, 'h, 'ol) Model \<Rightarrow> ('e, 'h, 'ol) Model" where
  "patchEntityDescriptions lbl model =
     model\<lparr>label := lbl,
           entities := (entities model)\<lparr>data := (data (entities model))
             \<lparr>pdbx_description :=
                fold (\<lambda>entityId arr. arr(getEntityIndex (entities model) entityId \<mapsto> [lbl]))
                  (label_entity_id (atomicHierarchy model))
                  (pdbx_description (data (entities model)))\<rparr>\<rparr>\<rparr>"

text \<open>
  Lines 77 to 81: the models assemblies are built from the tables of the resolved model
  only while the trajectory holds none.
\<close>

definition getOrBuildAssemblies ::
  "('e, 'h, 'ol, 'mats, 'op, 'u) Imports \<Rightarrow> ('e, 'h, 'ol, 'op) Trajectory \<Rightarrow> 'ol MmcifData \<Rightarrow>
   import_error + ('e, 'h, 'ol, 'op) Trajectory \<times> 'op ModelsAssembly list" where
  "getOrBuildAssemblies imp trajectory d =
     (case modelsAssemblies trajectory of
        Some cached \<Rightarrow> Inr (trajectory, cached)
      | None \<Rightarrow>
          (case createModelsAssemblies (getMatrices imp) (operatorGroupsProvider imp)
                  (pdbx_struct_assembly (db d)) (pdbx_struct_assembly_gen (db d))
                  (pdbx_struct_oper_list (db d)) (gen_PDB_model_num (frame d)) of
             Inl e \<Rightarrow> Inl e
           | Inr built \<Rightarrow> Inr (trajectory\<lparr>modelsAssemblies := Some built\<rparr>, built)))"

text \<open>Lines 93 to 97: every unit under every operator of the group, operator major.\<close>

definition replicateUnits :: "'u list \<Rightarrow> 'op list \<Rightarrow> ('u \<times> 'op) list" where
  "replicateUnits us opers =
     fold (\<lambda>oper assembler. fold (\<lambda>unit a. addWithOperator a unit oper) us assembler) opers []"

text \<open>
  Lines 86 to 99, from the models assembly the lookup found: \<open>Inl\<close> a thrown error,
  \<open>Inr (Some s)\<close> the built structure. Reading \<^verbatim>\<open>g.operators\<close> when \<^verbatim>\<open>g\<close> is
  \<^verbatim>\<open>undefined\<close> throws a \<open>TypeError\<close>.
\<close>

definition assembleFrom ::
  "('e, 'h, 'ol, 'mats, 'op, 'u) Imports \<Rightarrow> ('e, 'h, 'ol) Model \<Rightarrow> int \<Rightarrow> 'op ModelsAssembly \<Rightarrow>
   error + ('u, 'op) Structure option" where
  "assembleFrom imp model modelIndex modelsAssembly =
     (case operatorGroups (assembly modelsAssembly) of
        Inl e \<Rightarrow> Inl (Imported e)
      | Inr groups \<Rightarrow>
          (case js_index groups modelIndex of
             None \<Rightarrow> Inl TypeError
           | Some g \<Rightarrow>
               Inr (Some (getStructure (replicateUnits (ofModel imp model) (operators g))))))"

text \<open>
  The result is the trajectory as the call leaves it and the outcome, \<open>Inr None\<close> being
  the bare \<^verbatim>\<open>return\<close> of line 58. The resolved model is an object of the trajectory, so
  the patch of lines 64 to 75 shows in the frame.
\<close>

definition buildModelsAssembly ::
  "('e, 'h, 'ol, 'mats, 'op, 'u) Imports \<Rightarrow> ('e, 'h, 'ol, 'op) Trajectory \<Rightarrow> string \<Rightarrow> int \<Rightarrow>
   ('e, 'h, 'ol, 'op) Trajectory \<times> (error + ('u, 'op) Structure option)" where
  "buildModelsAssembly imp trajectory asmName modelIndex =
     (case getFrameAtIndex trajectory modelIndex of
        Inl e \<Rightarrow> (trajectory, Inl e)
      | Inr model \<Rightarrow>
     (case sourceData model of
        OtherFormat \<Rightarrow> (trajectory, Inr None)
      | MmcifFormat d \<Rightarrow>
     (let lbl = str_at (pdbx_model_name (frame d)) modelIndex;
          model' = patchEntityDescriptions lbl model;
          trajectory' = trajectory\<lparr>frames := (frames trajectory)[nat modelIndex := model']\<rparr>
      in case getOrBuildAssemblies imp trajectory' d of
           Inl e \<Rightarrow> (trajectory', Inl (Imported e))
         | Inr (trajectory'', mas) \<Rightarrow>
             (case find (\<lambda>ma. toLowerCase (asm_id (assembly ma)) = asmName) mas of
                None \<Rightarrow> (trajectory'', Inl (AssemblyNotFound asmName))
              | Some modelsAssembly \<Rightarrow>
                  (trajectory'', assembleFrom imp model' modelIndex modelsAssembly)))))"

section \<open>The state transform\<close>

text \<open>
  \<^verbatim>\<open>StateObject.Null\<close> or the structure object with its props; the props are computed
  from the structure by functions outside this file (\<open>propsOf\<close>).
\<close>

datatype ('s, 'p) StateObject = Null | Molecule_Structure 's 'p

definition StructureFromPetworld_apply ::
  "('e, 'h, 'ol, 'mats, 'op, 'u) Imports \<Rightarrow> (('u, 'op) Structure \<Rightarrow> 'p) \<Rightarrow>
   ('e, 'h, 'ol, 'op) Trajectory \<Rightarrow> int \<Rightarrow>
   ('e, 'h, 'ol, 'op) Trajectory \<times> (error + (('u, 'op) Structure, 'p) StateObject)" where
  "StructureFromPetworld_apply imp propsOf a modelIndex =
     (case buildModelsAssembly imp a ''1'' modelIndex of
        (a', Inl e) \<Rightarrow> (a', Inl e)
      | (a', Inr None) \<Rightarrow> (a', Inr Null)
      | (a', Inr (Some s)) \<Rightarrow> (a', Inr (Molecule_Structure s (propsOf s))))"

section \<open>Reference definitions and example inputs\<close>

text \<open>
  The generators and the model numbers \<^verbatim>\<open>createModelsAssembly\<close> collects for one
  matching generator row.
\<close>

definition mkGenerator :: "StructAssemblyGen \<Rightarrow> string \<Rightarrow> nat \<Rightarrow> Generator" where
  "mkGenerator gen ident i =
     \<lparr>assemblyId = ident, expression = oper_expression gen i, asymIds = asym_id_list gen i\<rparr>"

text \<open>
  The specification's reading of the assembly-definition build: one entry per distinct
  assembly id that has at least one generator row.
\<close>

definition spec_assembly_ids :: "StructAssembly \<Rightarrow> StructAssemblyGen \<Rightarrow> string list" where
  "spec_assembly_ids sa gen =
     remdups (filter (\<lambda>a. a \<in> set (map (assembly_id gen) [0..<gen_rowCount gen]))
                (map (sa_id sa) [0..<sa_rowCount sa]))"

text \<open>The specification's reading of the lookup: the two ids agree up to letter case.\<close>

definition matches_case_insensitively :: "string \<Rightarrow> string \<Rightarrow> bool" where
  "matches_case_insensitively a b = (toLowerCase a = toLowerCase b)"

text \<open>
  Example tables, after the scenario of the specification: two generator rows of one
  assembly, with the expressions \<open>1\<close> and \<open>2,3\<close> and the model numbers 10 and 11.
\<close>

definition ex_no_assemblies :: StructAssembly where
  "ex_no_assemblies = \<lparr>sa_rowCount = 0, sa_id = (\<lambda>i. []), sa_details = (\<lambda>i. [])\<rparr>"

definition ex_two_assemblies :: StructAssembly where
  "ex_two_assemblies = \<lparr>sa_rowCount = 2, sa_id = (\<lambda>i. if i = 0 then ''1'' else ''2''),
     sa_details = (\<lambda>i. [])\<rparr>"

definition ex_assembly_table :: "string \<Rightarrow> StructAssembly" where
  "ex_assembly_table ident = \<lparr>sa_rowCount = 1, sa_id = (\<lambda>i. ident), sa_details = (\<lambda>i. [])\<rparr>"

definition ex_gen_table :: "string \<Rightarrow> StructAssemblyGen" where
  "ex_gen_table ident = \<lparr>gen_rowCount = 2, assembly_id = (\<lambda>i. ident),
     oper_expression = (\<lambda>i. if i = 0 then ''1'' else ''2,3''),
     asym_id_list = (\<lambda>i. [''A''])\<rparr>"

definition ex_gen_two :: StructAssemblyGen where
  "ex_gen_two = ex_gen_table ''1''"

definition ex_model_num :: CifField where
  "ex_model_num = \<lparr>int_at = (\<lambda>i. 10 + int i), str_at = (\<lambda>i. [])\<rparr>"

definition ex_model_name :: CifField where
  "ex_model_name = \<lparr>int_at = (\<lambda>i. 0), str_at = (\<lambda>i. if i = 0 then ''cell'' else ''virus'')\<rparr>"

definition failing_getMatrices :: "unit \<Rightarrow> import_error + unit" where
  "failing_getMatrices ol = Inl MalformedOperatorRecord"

definition ok_getMatrices :: "unit \<Rightarrow> import_error + unit" where
  "ok_getMatrices ol = Inr ()"

definition ex_provider :: "Generator list \<Rightarrow> unit \<Rightarrow> import_error + nat OperatorGroup list" where
  "ex_provider gens m =
     Inr (map (\<lambda>g. \<lparr>operators = (if expression g = ''1'' then [1] else [2, 3])\<rparr>) gens)"

definition ex_assembly :: "string \<Rightarrow> nat ModelsAssembly" where
  "ex_assembly ident =
     \<lparr>assembly = \<lparr>asm_id = ident, asm_details = [],
                   operatorGroups = Inr [\<lparr>operators = [1]\<rparr>, \<lparr>operators = [2, 3]\<rparr>]\<rparr>,
      modelNums = [10, 11]\<rparr>"

definition ex_data :: "string \<Rightarrow> unit MmcifData" where
  "ex_data ident =
     \<lparr>db = \<lparr>pdbx_struct_assembly = ex_assembly_table ident,
            pdbx_struct_assembly_gen = ex_gen_table ident,
            pdbx_struct_oper_list = ()\<rparr>,
      frame = \<lparr>pdbx_model_name = ex_model_name, gen_PDB_model_num = ex_model_num\<rparr>\<rparr>"

definition ex_model :: "string \<Rightarrow> (unit, unit, unit) Model" where
  "ex_model ident =
     \<lparr>label = ''unnamed'',
      entities = \<lparr>data = \<lparr>pdbx_description = [0 \<mapsto> [''protein''], 1 \<mapsto> [''water'']],
                          other_columns = ()\<rparr>,
                  getEntityIndex = (\<lambda>e. if e = ''1'' then 0 else if e = ''2'' then 1 else - 1)\<rparr>,
      atomicHierarchy = \<lparr>label_entity_id = [''1'', ''1''], hierarchy_rest = ()\<rparr>,
      sourceData = MmcifFormat (ex_data ident)\<rparr>"

text \<open>Three frames over tables that give the assembly two operator groups.\<close>

definition ex_trajectory :: "string \<Rightarrow> (unit, unit, unit, nat) Trajectory" where
  "ex_trajectory ident =
     \<lparr>frames = [ex_model ident, ex_model ident, ex_model ident], modelsAssemblies = None\<rparr>"

definition ex_other_trajectory :: "(unit, unit, unit, nat) Trajectory" where
  "ex_other_trajectory =
     \<lparr>frames = [(ex_model ''1'')\<lparr>sourceData := OtherFormat\<rparr>], modelsAssemblies = None\<rparr>"

definition ex_imports :: "(unit, unit, unit, unit, nat, nat) Imports" where
  "ex_imports = \<lparr>getMatrices = ok_getMatrices, operatorGroupsProvider = ex_provider,
                 ofModel = (\<lambda>m. [100, 101, 102, 103, 104])\<rparr>"

definition ex_props :: "(nat, nat) Structure \<Rightarrow> nat" where
  "ex_props s = length (units s)"

section \<open>Evaluation of the examples\<close>

lemma upt2: "[0..<2] = [0, Suc 0]"
  by (simp add: numeral_2_eq_2)

lemma toLowerCase_1: "toLowerCase ''1'' = ''1''"
  by code_simp

lemma toLowerCase_A: "toLowerCase ''A'' = ''a''"
  by code_simp

lemma ex_createModelsAssemblies:
  "createModelsAssemblies ok_getMatrices ex_provider (ex_assembly_table ident) (ex_gen_table ident)
     () ex_model_num = Inr [ex_assembly ident]"
  by (simp add: createModelsAssemblies_def createModelsAssembly_def gen_step_def Let_def upt2
      ex_assembly_table_def ex_gen_table_def ex_model_num_def ok_getMatrices_def ex_provider_def
      ex_assembly_def)

lemma ex_getFrameAtIndex:
  "getFrameAtIndex (ex_trajectory ident) 0 = Inr (ex_model ident)"
  "getFrameAtIndex (ex_trajectory ident) 1 = Inr (ex_model ident)"
  "getFrameAtIndex (ex_trajectory ident) 2 = Inr (ex_model ident)"
  by (simp_all add: getFrameAtIndex_def js_index_def ex_trajectory_def)

lemma ex_sourceData: "sourceData (ex_model ident) = MmcifFormat (ex_data ident)"
  by (simp add: ex_model_def)

lemma ex_getOrBuildAssemblies:
  "modelsAssemblies t = None \<Longrightarrow>
   getOrBuildAssemblies ex_imports t (ex_data ident) =
     Inr (t\<lparr>modelsAssemblies := Some [ex_assembly ident]\<rparr>, [ex_assembly ident])"
  using ex_createModelsAssemblies [of ident]
  by (simp add: getOrBuildAssemblies_def ex_imports_def ex_data_def)

lemma ex_cache_empty: "modelsAssemblies (ex_trajectory ident) = None"
  by (simp add: ex_trajectory_def)

lemma ex_ofModel: "ofModel ex_imports m = [100, 101, 102, 103, 104]"
  by (simp add: ex_imports_def)

lemma ex_build_1_1:
  "snd (buildModelsAssembly ex_imports (ex_trajectory ''1'') ''1'' 1) =
     Inr (Some \<lparr>units = [(100, 2), (101, 2), (102, 2), (103, 2), (104, 2),
                          (100, 3), (101, 3), (102, 3), (103, 3), (104, 3)]\<rparr>)"
  by (simp add: buildModelsAssembly_def ex_getFrameAtIndex ex_sourceData Let_def
      ex_getOrBuildAssemblies ex_cache_empty ex_assembly_def toLowerCase_1 assembleFrom_def
      js_index_def getStructure_def replicateUnits_def addWithOperator_def ex_ofModel)

lemma ex_build_1_2:
  "snd (buildModelsAssembly ex_imports (ex_trajectory ''1'') ''1'' 2) = Inl TypeError"
  by (simp add: buildModelsAssembly_def ex_getFrameAtIndex ex_sourceData Let_def
      ex_getOrBuildAssemblies ex_cache_empty ex_assembly_def toLowerCase_1 assembleFrom_def
      js_index_def)

section \<open>The assembly-definition build\<close>

lemma fold_gen_step:
  "fold (gen_step gen pmn ident) xs acc =
     (fst acc @ map (mkGenerator gen ident) (filter (\<lambda>i. assembly_id gen i = ident) xs),
      snd acc @ map (int_at pmn) (filter (\<lambda>i. assembly_id gen i = ident) xs))"
  by (induction xs arbitrary: acc) (simp_all add: gen_step_def mkGenerator_def)

lemma fold_append_map: "fold (\<lambda>i acc. acc @ [f i]) xs acc0 = acc0 @ map f xs"
  by (induction xs arbitrary: acc0) simp_all

text \<open>
  C6. The model numbers of a models assembly are those of the generator rows whose
  \<open>assembly_id\<close> is the id of the assembly row, in the row order of the generator table;
  there are as many as there are such rows.
\<close>

theorem modelNums_generator_rows:
  "modelNums (createModelsAssembly ogp sa gen index matrices pmn) =
     map (int_at pmn) (filter (\<lambda>i. assembly_id gen i = sa_id sa index) [0..<gen_rowCount gen])
   \<and> length (modelNums (createModelsAssembly ogp sa gen index matrices pmn)) =
     length (filter (\<lambda>i. assembly_id gen i = sa_id sa index) [0..<gen_rowCount gen])"
  by (simp add: createModelsAssembly_def fold_gen_step Let_def)

text \<open>
  C7. An assembly table without rows gives the empty sequence and no error, whatever the
  other tables hold and even where building the operator matrices would fail.
\<close>

theorem empty_assembly_table:
  "sa_rowCount sa = 0 \<Longrightarrow> createModelsAssemblies gm ogp sa gen ol pmn = Inr []"
  by (simp add: createModelsAssemblies_def)

theorem empty_assembly_table_witness:
  "sa_rowCount ex_no_assemblies = 0 \<and>
   createModelsAssemblies failing_getMatrices ex_provider ex_no_assemblies ex_gen_two ()
     ex_model_num = Inr []"
  using empty_assembly_table
    [of ex_no_assemblies failing_getMatrices ex_provider ex_gen_two "()" ex_model_num]
  by (simp add: ex_no_assemblies_def)

text \<open>
  C3, as the claim states it, fails: the assembly table has the ids \<open>1\<close> and \<open>2\<close>, both
  generator rows belong to \<open>1\<close>, and the build still returns a models assembly for \<open>2\<close>,
  with no model numbers and no operator groups.
\<close>

theorem zero_generator_assembly_kept:
  "createModelsAssemblies ok_getMatrices ex_provider ex_two_assemblies ex_gen_two () ex_model_num =
     Inr [\<lparr>assembly = \<lparr>asm_id = ''1'', asm_details = [],
                        operatorGroups = Inr [\<lparr>operators = [1]\<rparr>, \<lparr>operators = [2, 3]\<rparr>]\<rparr>,
           modelNums = [10, 11]\<rparr>,
          \<lparr>assembly = \<lparr>asm_id = ''2'', asm_details = [], operatorGroups = Inr []\<rparr>,
           modelNums = []\<rparr>]
   \<and> spec_assembly_ids ex_two_assemblies ex_gen_two = [''1'']"
  by (simp add: createModelsAssemblies_def createModelsAssembly_def ok_getMatrices_def
      ex_two_assemblies_def ex_gen_two_def ex_gen_table_def ex_model_num_def ex_provider_def
      gen_step_def spec_assembly_ids_def upt2 Let_def)

text \<open>
  C3, amended. When the operator matrices are built without error, the build returns one
  models assembly per row of the assembly table, in row order and with the id of its row;
  an assembly none of whose generator rows match is kept, with no model numbers.
\<close>

theorem one_assembly_per_row:
  assumes "gm ol = Inr matrices"
  shows "createModelsAssemblies gm ogp sa gen ol pmn =
           Inr (map (\<lambda>i. createModelsAssembly ogp sa gen i matrices pmn) [0..<sa_rowCount sa])
         \<and> map (\<lambda>ma. asm_id (assembly ma))
             (map (\<lambda>i. createModelsAssembly ogp sa gen i matrices pmn) [0..<sa_rowCount sa]) =
           map (sa_id sa) [0..<sa_rowCount sa]
         \<and> (\<forall>i. (\<forall>j < gen_rowCount gen. assembly_id gen j \<noteq> sa_id sa i) \<longrightarrow>
              modelNums (createModelsAssembly ogp sa gen i matrices pmn) = [])"
proof (intro conjI allI impI)
  show "createModelsAssemblies gm ogp sa gen ol pmn =
          Inr (map (\<lambda>i. createModelsAssembly ogp sa gen i matrices pmn) [0..<sa_rowCount sa])"
    using assms by (simp add: createModelsAssemblies_def fold_append_map)
next
  show "map (\<lambda>ma. asm_id (assembly ma))
          (map (\<lambda>i. createModelsAssembly ogp sa gen i matrices pmn) [0..<sa_rowCount sa]) =
        map (sa_id sa) [0..<sa_rowCount sa]"
    by (simp add: createModelsAssembly_def Let_def)
next
  fix i
  assume none: "\<forall>j < gen_rowCount gen. assembly_id gen j \<noteq> sa_id sa i"
  then have "filter (\<lambda>j. assembly_id gen j = sa_id sa i) [0..<gen_rowCount gen] = []"
    by (simp add: filter_empty_conv)
  then show "modelNums (createModelsAssembly ogp sa gen i matrices pmn) = []"
    by (simp add: createModelsAssembly_def fold_gen_step Let_def)
qed

theorem one_assembly_per_row_witness:
  "ok_getMatrices () = Inr ()
   \<and> createModelsAssemblies ok_getMatrices ex_provider ex_two_assemblies ex_gen_two () ex_model_num =
       Inr [createModelsAssembly ex_provider ex_two_assemblies ex_gen_two 0 () ex_model_num,
            createModelsAssembly ex_provider ex_two_assemblies ex_gen_two 1 () ex_model_num]
   \<and> modelNums (createModelsAssembly ex_provider ex_two_assemblies ex_gen_two 1 () ex_model_num) = []"
proof -
  have h: "ok_getMatrices () = Inr ()"
    by (simp add: ok_getMatrices_def)
  have none: "\<forall>j < gen_rowCount ex_gen_two. assembly_id ex_gen_two j \<noteq> sa_id ex_two_assemblies 1"
    by (simp add: ex_gen_two_def ex_gen_table_def ex_two_assemblies_def)
  have n: "sa_rowCount ex_two_assemblies = 2"
    by (simp add: ex_two_assemblies_def)
  show ?thesis
    using h none one_assembly_per_row [where gm = ok_getMatrices and ol = "()" and matrices = "()"
        and ogp = ex_provider and sa = ex_two_assemblies and gen = ex_gen_two and pmn = ex_model_num]
    by (simp add: n upt2)
qed

section \<open>Replicating the units\<close>

lemma fold_addWithOperator:
  "fold (\<lambda>unit a. addWithOperator a unit oper) us acc = acc @ map (\<lambda>u. (u, oper)) us"
  by (induction us arbitrary: acc) (simp_all add: addWithOperator_def)

lemma fold_replicate:
  "fold (\<lambda>oper assembler. fold (\<lambda>unit a. addWithOperator a unit oper) us assembler) opers acc =
     acc @ concat (map (\<lambda>oper. map (\<lambda>u. (u, oper)) us) opers)"
  by (induction opers arbitrary: acc) (simp_all add: fold_addWithOperator)

lemma replicateUnits_concat:
  "replicateUnits us opers = concat (map (\<lambda>oper. map (\<lambda>u. (u, oper)) us) opers)"
  by (simp add: replicateUnits_def fold_replicate)

lemma length_replicateUnits: "length (replicateUnits us opers) = length opers * length us"
  by (induction opers) (simp_all add: replicateUnits_concat)

text \<open>
  C1. When the model at the index resolves to an mmCIF model, the lookup finds a models
  assembly and its operator groups hold a group at the model index, with \<open>k\<close> operators,
  the build returns a structure of \<open>k * u\<close> units, \<open>u\<close> being the number of units of the
  base structure of the model: one instance per operator of the group and unit, operator
  major.
\<close>

theorem build_unit_count:
  assumes frame: "getFrameAtIndex t i = Inr m"
    and fmt: "sourceData m = MmcifFormat d"
    and patched: "m' = patchEntityDescriptions (str_at (pdbx_model_name (frame d)) i) m"
    and cache: "getOrBuildAssemblies imp (t\<lparr>frames := (frames t)[nat i := m']\<rparr>) d = Inr (t', mas)"
    and found: "find (\<lambda>ma. toLowerCase (asm_id (assembly ma)) = asmName) mas = Some ma"
    and groups: "operatorGroups (assembly ma) = Inr gs"
    and group: "js_index gs i = Some g"
  shows "snd (buildModelsAssembly imp t asmName i) =
           Inr (Some \<lparr>units = concat (map (\<lambda>oper. map (\<lambda>u. (u, oper)) (ofModel imp m'))
                                        (operators g))\<rparr>)
         \<and> length (concat (map (\<lambda>oper. map (\<lambda>u. (u, oper)) (ofModel imp m')) (operators g))) =
           length (operators g) * length (ofModel imp m')"
proof
  have "assembleFrom imp m' i ma =
          Inr (Some \<lparr>units = concat (map (\<lambda>oper. map (\<lambda>u. (u, oper)) (ofModel imp m'))
                                       (operators g))\<rparr>)"
    using groups group by (simp add: assembleFrom_def getStructure_def replicateUnits_concat)
  then show "snd (buildModelsAssembly imp t asmName i) =
           Inr (Some \<lparr>units = concat (map (\<lambda>oper. map (\<lambda>u. (u, oper)) (ofModel imp m'))
                                        (operators g))\<rparr>)"
    using frame fmt patched cache found by (simp add: buildModelsAssembly_def Let_def)
next
  show "length (concat (map (\<lambda>oper. map (\<lambda>u. (u, oper)) (ofModel imp m')) (operators g))) =
           length (operators g) * length (ofModel imp m')"
    using length_replicateUnits [of "ofModel imp m'" "operators g"]
    by (simp only: replicateUnits_concat)
qed

theorem build_unit_count_witness:
  "js_index [\<lparr>operators = [1::nat]\<rparr>, \<lparr>operators = [2, 3]\<rparr>] 1 = Some \<lparr>operators = [2, 3]\<rparr>
   \<and> snd (buildModelsAssembly ex_imports (ex_trajectory ''1'') ''1'' 1) =
       Inr (Some \<lparr>units = [(100, 2), (101, 2), (102, 2), (103, 2), (104, 2),
                            (100, 3), (101, 3), (102, 3), (103, 3), (104, 3)]\<rparr>)
   \<and> length [(100::nat, 2::nat), (101, 2), (102, 2), (103, 2), (104, 2),
             (100, 3), (101, 3), (102, 3), (103, 3), (104, 3)] = 2 * 5"
proof -
  let ?m' = "patchEntityDescriptions (str_at (pdbx_model_name (frame (ex_data ''1''))) 1)
               (ex_model ''1'')"
  let ?t' = "(ex_trajectory ''1'')\<lparr>frames := (frames (ex_trajectory ''1''))[nat 1 := ?m']\<rparr>"
  have cache: "getOrBuildAssemblies ex_imports ?t' (ex_data ''1'') =
      Inr (?t'\<lparr>modelsAssemblies := Some [ex_assembly ''1'']\<rparr>, [ex_assembly ''1''])"
    by (rule ex_getOrBuildAssemblies) (simp add: ex_trajectory_def)
  have found: "find (\<lambda>ma. toLowerCase (asm_id (assembly ma)) = ''1'') [ex_assembly ''1''] =
      Some (ex_assembly ''1'')"
    by (simp add: ex_assembly_def toLowerCase_1)
  have groups: "operatorGroups (assembly (ex_assembly ''1'')) =
      Inr [\<lparr>operators = [1]\<rparr>, \<lparr>operators = [2, 3]\<rparr>]"
    by (simp add: ex_assembly_def)
  have group: "js_index [\<lparr>operators = [1::nat]\<rparr>, \<lparr>operators = [2, 3]\<rparr>] 1 =
      Some \<lparr>operators = [2, 3]\<rparr>"
    by (simp add: js_index_def)
  show ?thesis
    using group
      build_unit_count [OF ex_getFrameAtIndex(2) ex_sourceData refl cache found groups group]
    by (simp add: ex_imports_def)
qed

section \<open>The models assemblies held by the trajectory\<close>

lemma getOrBuildAssemblies_cached:
  "modelsAssemblies t = Some c \<Longrightarrow> getOrBuildAssemblies imp t d = Inr (t, c)"
  by (simp add: getOrBuildAssemblies_def)

lemma getOrBuildAssemblies_stores:
  "getOrBuildAssemblies imp t d = Inr (t', mas) \<Longrightarrow> modelsAssemblies t' = Some mas"
  by (auto simp add: getOrBuildAssemblies_def split: option.splits sum.splits)

lemma getOrBuildAssemblies_frames:
  "getOrBuildAssemblies imp t d = Inr (t', mas) \<Longrightarrow> frames t' = frames t"
  by (auto simp add: getOrBuildAssemblies_def split: option.splits sum.splits)

lemma build_keeps_cache:
  assumes "modelsAssemblies t = Some c"
  shows "modelsAssemblies (fst (buildModelsAssembly imp t a j)) = Some c"
proof (cases "getFrameAtIndex t j")
  case (Inl e)
  then show ?thesis using assms by (simp add: buildModelsAssembly_def)
next
  case (Inr m)
  show ?thesis
  proof (cases "sourceData m")
    case OtherFormat
    then show ?thesis using Inr assms by (simp add: buildModelsAssembly_def)
  next
    case (MmcifFormat d)
    let ?t' = "t\<lparr>frames := (frames t)[nat j :=
                 patchEntityDescriptions (str_at (pdbx_model_name (frame d)) j) m]\<rparr>"
    have "getOrBuildAssemblies imp ?t' d = Inr (?t', c)"
      using assms by (simp add: getOrBuildAssemblies_cached)
    then show ?thesis
      using Inr MmcifFormat assms
      by (simp add: buildModelsAssembly_def Let_def split: option.splits)
  qed
qed

lemma assembleFrom_imports:
  "assembleFrom (imp\<lparr>getMatrices := gm, operatorGroupsProvider := ogp\<rparr>) m i ma =
   assembleFrom imp m i ma"
  by (simp add: assembleFrom_def split: sum.splits option.splits)

lemma build_cached_imports:
  assumes "modelsAssemblies t = Some c"
  shows "buildModelsAssembly (imp\<lparr>getMatrices := gm, operatorGroupsProvider := ogp\<rparr>) t a j =
         buildModelsAssembly imp t a j"
proof (cases "getFrameAtIndex t j")
  case (Inl e)
  then show ?thesis by (simp add: buildModelsAssembly_def)
next
  case (Inr m)
  show ?thesis
  proof (cases "sourceData m")
    case OtherFormat
    then show ?thesis using Inr by (simp add: buildModelsAssembly_def)
  next
    case (MmcifFormat d)
    let ?t' = "t\<lparr>frames := (frames t)[nat j :=
                 patchEntityDescriptions (str_at (pdbx_model_name (frame d)) j) m]\<rparr>"
    have c: "modelsAssemblies ?t' = Some c"
      using assms by simp
    show ?thesis
      using Inr MmcifFormat
      by (simp add: buildModelsAssembly_def Let_def getOrBuildAssemblies_cached [OF c]
          assembleFrom_imports split: option.splits)
  qed
qed

lemma build_first_stores:
  assumes frame: "getFrameAtIndex t i = Inr m"
    and fmt: "sourceData m = MmcifFormat d"
    and empty: "modelsAssemblies t = None"
    and built: "createModelsAssemblies (getMatrices imp) (operatorGroupsProvider imp)
                  (pdbx_struct_assembly (db d)) (pdbx_struct_assembly_gen (db d))
                  (pdbx_struct_oper_list (db d)) (gen_PDB_model_num (frame d)) = Inr built"
  shows "modelsAssemblies (fst (buildModelsAssembly imp t asmName i)) = Some built"
  using assms
  by (simp add: buildModelsAssembly_def Let_def getOrBuildAssemblies_def split: option.splits)

text \<open>
  C5. When the first request reaches the cache step (the frame resolves to an mmCIF model,
  the trajectory holds no models assemblies yet) and the construction from the tables of
  that frame succeeds, its result is stored on the trajectory. From then on the cache step
  returns the stored sequence for any frames and any tables, every later request, for any
  model index and assembly id, leaves the stored sequence as it is, and its whole result
  does not depend on the two functions the construction runs: the construction is not
  run again.
\<close>

theorem assemblies_built_once:
  assumes frame: "getFrameAtIndex t i = Inr m"
    and fmt: "sourceData m = MmcifFormat d"
    and empty: "modelsAssemblies t = None"
    and built: "createModelsAssemblies (getMatrices imp) (operatorGroupsProvider imp)
                  (pdbx_struct_assembly (db d)) (pdbx_struct_assembly_gen (db d))
                  (pdbx_struct_oper_list (db d)) (gen_PDB_model_num (frame d)) = Inr built"
    and first: "t1 = fst (buildModelsAssembly imp t asmName i)"
  shows "modelsAssemblies t1 = Some built
       \<and> getOrBuildAssemblies imp' (t1\<lparr>frames := fs\<rparr>) d' = Inr (t1\<lparr>frames := fs\<rparr>, built)
       \<and> modelsAssemblies (fst (buildModelsAssembly imp t1 asmName' j)) = Some built
       \<and> buildModelsAssembly (imp\<lparr>getMatrices := gm, operatorGroupsProvider := ogp\<rparr>) t1 asmName' j =
         buildModelsAssembly imp t1 asmName' j"
proof -
  have c: "modelsAssemblies t1 = Some built"
    unfolding first by (rule build_first_stores [OF frame fmt empty built])
  then have c': "modelsAssemblies (t1\<lparr>frames := fs\<rparr>) = Some built"
    by simp
  show ?thesis
  proof (intro conjI)
    show "modelsAssemblies t1 = Some built"
      by (rule c)
    show "getOrBuildAssemblies imp' (t1\<lparr>frames := fs\<rparr>) d' = Inr (t1\<lparr>frames := fs\<rparr>, built)"
      by (rule getOrBuildAssemblies_cached [OF c'])
    show "modelsAssemblies (fst (buildModelsAssembly imp t1 asmName' j)) = Some built"
      by (rule build_keeps_cache [OF c])
    show "buildModelsAssembly (imp\<lparr>getMatrices := gm, operatorGroupsProvider := ogp\<rparr>) t1
            asmName' j = buildModelsAssembly imp t1 asmName' j"
      by (rule build_cached_imports [OF c])
  qed
qed

theorem assemblies_built_once_witness:
  "modelsAssemblies (ex_trajectory ''1'') = None
   \<and> modelsAssemblies (fst (buildModelsAssembly ex_imports (ex_trajectory ''1'') ''1'' 0)) =
       Some [ex_assembly ''1'']
   \<and> modelsAssemblies (fst (buildModelsAssembly ex_imports
        (fst (buildModelsAssembly ex_imports (ex_trajectory ''1'') ''1'' 0)) ''1'' 1)) =
       Some [ex_assembly ''1'']
   \<and> buildModelsAssembly (ex_imports\<lparr>getMatrices := failing_getMatrices,
                                       operatorGroupsProvider := ex_provider\<rparr>)
        (fst (buildModelsAssembly ex_imports (ex_trajectory ''1'') ''1'' 0)) ''1'' 1 =
      buildModelsAssembly ex_imports
        (fst (buildModelsAssembly ex_imports (ex_trajectory ''1'') ''1'' 0)) ''1'' 1"
proof -
  have empty: "modelsAssemblies (ex_trajectory ''1'') = None"
    by (simp add: ex_trajectory_def)
  have built: "createModelsAssemblies (getMatrices ex_imports) (operatorGroupsProvider ex_imports)
      (pdbx_struct_assembly (db (ex_data ''1''))) (pdbx_struct_assembly_gen (db (ex_data ''1'')))
      (pdbx_struct_oper_list (db (ex_data ''1''))) (gen_PDB_model_num (frame (ex_data ''1''))) =
      Inr [ex_assembly ''1'']"
    using ex_createModelsAssemblies [of "''1''"] by (simp add: ex_imports_def ex_data_def)
  show ?thesis
    using empty
      assemblies_built_once [OF ex_getFrameAtIndex(1) ex_sourceData empty built refl,
        where asmName = "''1''" and asmName' = "''1''" and j = 1 and gm = failing_getMatrices
          and ogp = ex_provider and imp' = ex_imports and fs = "[]" and d' = "ex_data ''1''"]
    by simp
qed

section \<open>The state transform and the unsupported format\<close>

lemma apply_snd:
  "snd (StructureFromPetworld_apply imp p t i) =
     (case snd (buildModelsAssembly imp t ''1'' i) of
        Inl e \<Rightarrow> Inl e
      | Inr None \<Rightarrow> Inr Null
      | Inr (Some s) \<Rightarrow> Inr (Molecule_Structure s (p s)))"
  by (simp add: StructureFromPetworld_apply_def split: prod.splits sum.splits option.splits)

lemma apply_fst:
  "fst (StructureFromPetworld_apply imp p t i) = fst (buildModelsAssembly imp t ''1'' i)"
  by (simp add: StructureFromPetworld_apply_def split: prod.splits sum.splits option.splits)

text \<open>
  C8. When the frame at the model index resolves to a model whose source data is not
  mmCIF, the build returns no result, raises no error and leaves the trajectory as it was,
  and the state transform yields the null object.
\<close>

theorem unsupported_format_no_result:
  assumes "getFrameAtIndex t i = Inr m" and "sourceData m = OtherFormat"
  shows "buildModelsAssembly imp t asmName i = (t, Inr None)
       \<and> StructureFromPetworld_apply imp p t i = (t, Inr Null)"
  using assms by (simp add: StructureFromPetworld_apply_def buildModelsAssembly_def)

theorem unsupported_format_no_result_witness:
  "getFrameAtIndex ex_other_trajectory 0 = Inr ((ex_model ''1'')\<lparr>sourceData := OtherFormat\<rparr>)
   \<and> buildModelsAssembly ex_imports ex_other_trajectory ''1'' 0 = (ex_other_trajectory, Inr None)
   \<and> StructureFromPetworld_apply ex_imports ex_props ex_other_trajectory 0 =
       (ex_other_trajectory, Inr Null)"
proof -
  have f: "getFrameAtIndex ex_other_trajectory 0 = Inr ((ex_model ''1'')\<lparr>sourceData := OtherFormat\<rparr>)"
    by (simp add: getFrameAtIndex_def js_index_def ex_other_trajectory_def)
  have s: "sourceData ((ex_model ''1'')\<lparr>sourceData := OtherFormat\<rparr>) = OtherFormat"
    by simp
  show ?thesis
    using f unsupported_format_no_result [OF f s, of ex_imports "''1''" ex_props]
    by simp
qed

lemma build_structure_from:
  assumes "snd (buildModelsAssembly imp t a i) = Inr (Some s)"
  shows "\<exists>mas ma m'. modelsAssemblies (fst (buildModelsAssembly imp t a i)) = Some mas
           \<and> find (\<lambda>ma. toLowerCase (asm_id (assembly ma)) = a) mas = Some ma
           \<and> assembleFrom imp m' i ma = Inr (Some s)"
proof (cases "getFrameAtIndex t i")
  case (Inl e)
  then show ?thesis using assms by (simp add: buildModelsAssembly_def)
next
  case (Inr m)
  show ?thesis
  proof (cases "sourceData m")
    case OtherFormat
    then show ?thesis using Inr assms by (simp add: buildModelsAssembly_def)
  next
    case (MmcifFormat d)
    let ?m' = "patchEntityDescriptions (str_at (pdbx_model_name (frame d)) i) m"
    let ?t' = "t\<lparr>frames := (frames t)[nat i := ?m']\<rparr>"
    show ?thesis
    proof (cases "getOrBuildAssemblies imp ?t' d")
      case (Inl e)
      then show ?thesis using Inr MmcifFormat assms
        by (simp add: buildModelsAssembly_def Let_def)
    next
      case cache: (Inr r)
      obtain t'' mas where r: "r = (t'', mas)"
        by (cases r)
      have st: "modelsAssemblies t'' = Some mas"
        using cache r getOrBuildAssemblies_stores by blast
      show ?thesis
      proof (cases "find (\<lambda>ma. toLowerCase (asm_id (assembly ma)) = a) mas")
        case None
        then show ?thesis using Inr MmcifFormat cache r assms
          by (simp add: buildModelsAssembly_def Let_def)
      next
        case (Some ma)
        have b: "buildModelsAssembly imp t a i = (t'', assembleFrom imp ?m' i ma)"
          using Inr MmcifFormat cache r Some by (simp add: buildModelsAssembly_def Let_def)
        show ?thesis
          using assms st Some unfolding b by auto
      qed
    qed
  qed
qed

text \<open>
  C9. The state transform is the build for the assembly id \<open>1\<close>, whatever the trajectory
  and the model index: it leaves the trajectory as that build does and wraps its outcome.
  So a structure the transform returns was assembled from the first stored models assembly
  whose lower-cased id is \<open>1\<close>, and from no other.
\<close>

theorem transform_requests_assembly_1:
  "fst (StructureFromPetworld_apply imp p t i) = fst (buildModelsAssembly imp t ''1'' i)
   \<and> snd (StructureFromPetworld_apply imp p t i) =
       (case snd (buildModelsAssembly imp t ''1'' i) of
          Inl e \<Rightarrow> Inl e
        | Inr None \<Rightarrow> Inr Null
        | Inr (Some s) \<Rightarrow> Inr (Molecule_Structure s (p s)))
   \<and> (snd (StructureFromPetworld_apply imp p t i) = Inr (Molecule_Structure s pr) \<longrightarrow>
        (\<exists>mas ma m'. modelsAssemblies (fst (StructureFromPetworld_apply imp p t i)) = Some mas
           \<and> find (\<lambda>ma. toLowerCase (asm_id (assembly ma)) = ''1'') mas = Some ma
           \<and> toLowerCase (asm_id (assembly ma)) = ''1''
           \<and> assembleFrom imp m' i ma = Inr (Some s)))"
proof (intro conjI impI)
  show "fst (StructureFromPetworld_apply imp p t i) = fst (buildModelsAssembly imp t ''1'' i)"
    by (rule apply_fst)
  show "snd (StructureFromPetworld_apply imp p t i) =
       (case snd (buildModelsAssembly imp t ''1'' i) of
          Inl e \<Rightarrow> Inl e
        | Inr None \<Rightarrow> Inr Null
        | Inr (Some s) \<Rightarrow> Inr (Molecule_Structure s (p s)))"
    by (rule apply_snd)
next
  assume "snd (StructureFromPetworld_apply imp p t i) = Inr (Molecule_Structure s pr)"
  then have "snd (buildModelsAssembly imp t ''1'' i) = Inr (Some s)"
    by (simp add: apply_snd split: sum.splits option.splits)
  from build_structure_from [OF this]
  obtain mas ma m' where
    h: "modelsAssemblies (fst (buildModelsAssembly imp t ''1'' i)) = Some mas"
       "find (\<lambda>ma. toLowerCase (asm_id (assembly ma)) = ''1'') mas = Some ma"
       "assembleFrom imp m' i ma = Inr (Some s)"
    by blast
  from h(2) have "toLowerCase (asm_id (assembly ma)) = ''1''"
    by (auto simp add: find_Some_iff)
  with h show "\<exists>mas ma m'. modelsAssemblies (fst (StructureFromPetworld_apply imp p t i)) = Some mas
           \<and> find (\<lambda>ma. toLowerCase (asm_id (assembly ma)) = ''1'') mas = Some ma
           \<and> toLowerCase (asm_id (assembly ma)) = ''1''
           \<and> assembleFrom imp m' i ma = Inr (Some s)"
    unfolding apply_fst by blast
qed

theorem transform_requests_assembly_1_witness:
  "snd (StructureFromPetworld_apply ex_imports ex_props (ex_trajectory ''1'') 1) =
     Inr (Molecule_Structure
            \<lparr>units = [(100, 2), (101, 2), (102, 2), (103, 2), (104, 2),
                      (100, 3), (101, 3), (102, 3), (103, 3), (104, 3)]\<rparr> 10)
   \<and> (\<exists>mas ma m'.
         modelsAssemblies (fst (StructureFromPetworld_apply ex_imports ex_props
                                  (ex_trajectory ''1'') 1)) = Some mas
       \<and> find (\<lambda>ma. toLowerCase (asm_id (assembly ma)) = ''1'') mas = Some ma
       \<and> toLowerCase (asm_id (assembly ma)) = ''1''
       \<and> assembleFrom ex_imports m' 1 ma =
           Inr (Some \<lparr>units = [(100, 2), (101, 2), (102, 2), (103, 2), (104, 2),
                                (100, 3), (101, 3), (102, 3), (103, 3), (104, 3)]\<rparr>))"
proof -
  let ?s = "\<lparr>units = [(100::nat, 2::nat), (101, 2), (102, 2), (103, 2), (104, 2),
                      (100, 3), (101, 3), (102, 3), (103, 3), (104, 3)]\<rparr>"
  note t = transform_requests_assembly_1 [of ex_imports ex_props "ex_trajectory ''1''" 1 ?s 10]
  have e: "snd (StructureFromPetworld_apply ex_imports ex_props (ex_trajectory ''1'') 1) =
      Inr (Molecule_Structure ?s 10)"
    using t by (simp add: ex_build_1_1 ex_props_def)
  show ?thesis
    using t e by blast
qed

section \<open>The lookup of the models assembly\<close>

lemma assembleFrom_not_AssemblyNotFound: "assembleFrom imp m i ma \<noteq> Inl (AssemblyNotFound a)"
  by (simp add: assembleFrom_def split: sum.splits option.splits)

lemma find_cong_lower:
  "toLowerCase asmName = asmName \<Longrightarrow>
   find (\<lambda>ma. toLowerCase (asm_id (assembly ma)) = asmName) mas =
   find (\<lambda>ma. matches_case_insensitively (asm_id (assembly ma)) asmName) mas"
  by (simp add: matches_case_insensitively_def)

text \<open>
  C2, as the claim states it, fails at two inputs. The tables define the assembly \<open>A\<close>
  and the request is \<open>A\<close>: the stored id is lower-cased, the requested one is compared as
  it is, and the build throws although the ids agree up to case. And a frame that is not
  mmCIF, on a trajectory that holds no models assemblies: no entry matches the request,
  and the build returns no result instead of throwing.
\<close>

theorem uppercase_request_not_found:
  "modelsAssemblies (fst (buildModelsAssembly ex_imports (ex_trajectory ''A'') ''A'' 0)) =
     Some [ex_assembly ''A'']
   \<and> matches_case_insensitively (asm_id (assembly (ex_assembly ''A''))) ''A''
   \<and> snd (buildModelsAssembly ex_imports (ex_trajectory ''A'') ''A'' 0) =
     Inl (AssemblyNotFound ''A'')
   \<and> modelsAssemblies ex_other_trajectory = None
   \<and> snd (buildModelsAssembly ex_imports ex_other_trajectory ''1'' 0) = Inr None"
proof -
  let ?m' = "patchEntityDescriptions (str_at (pdbx_model_name (frame (ex_data ''A''))) 0)
               (ex_model ''A'')"
  let ?t' = "(ex_trajectory ''A'')\<lparr>frames := (frames (ex_trajectory ''A''))[nat 0 := ?m']\<rparr>"
  have cache: "getOrBuildAssemblies ex_imports ?t' (ex_data ''A'') =
      Inr (?t'\<lparr>modelsAssemblies := Some [ex_assembly ''A'']\<rparr>, [ex_assembly ''A''])"
    by (rule ex_getOrBuildAssemblies) (simp add: ex_trajectory_def)
  have nf: "find (\<lambda>ma. toLowerCase (asm_id (assembly ma)) = ''A'') [ex_assembly ''A''] = None"
    by (simp add: ex_assembly_def toLowerCase_A)
  have b: "buildModelsAssembly ex_imports (ex_trajectory ''A'') ''A'' 0 =
      (?t'\<lparr>modelsAssemblies := Some [ex_assembly ''A'']\<rparr>, Inl (AssemblyNotFound ''A''))"
    using cache nf
    by (simp add: buildModelsAssembly_def ex_getFrameAtIndex ex_sourceData Let_def)
  have o: "snd (buildModelsAssembly ex_imports ex_other_trajectory ''1'' 0) = Inr None"
    by (simp add: buildModelsAssembly_def getFrameAtIndex_def js_index_def
        ex_other_trajectory_def)
  have oc: "modelsAssemblies ex_other_trajectory = None"
    by (simp add: ex_other_trajectory_def)
  show ?thesis
    by (simp add: b o oc matches_case_insensitively_def ex_assembly_def)
qed

text \<open>
  C2, amended. When the call reaches the lookup (the frame resolves to an mmCIF model and
  the models assemblies are there) and the requested id is in lower case, as the \<open>1\<close> of
  the state transform is, the build goes on with the first stored models assembly whose
  id matches the request case-insensitively, and it throws \<open>AssemblyNotFound\<close> exactly
  when no stored id matches case-insensitively.
\<close>

theorem lookup_lowercase_request:
  assumes frame: "getFrameAtIndex t i = Inr m"
    and fmt: "sourceData m = MmcifFormat d"
    and patched: "m' = patchEntityDescriptions (str_at (pdbx_model_name (frame d)) i) m"
    and cache: "getOrBuildAssemblies imp (t\<lparr>frames := (frames t)[nat i := m']\<rparr>) d = Inr (t', mas)"
    and lower: "toLowerCase asmName = asmName"
  shows "buildModelsAssembly imp t asmName i =
           (case find (\<lambda>ma. matches_case_insensitively (asm_id (assembly ma)) asmName) mas of
              None \<Rightarrow> (t', Inl (AssemblyNotFound asmName))
            | Some ma \<Rightarrow> (t', assembleFrom imp m' i ma))
         \<and> (snd (buildModelsAssembly imp t asmName i) = Inl (AssemblyNotFound asmName) \<longleftrightarrow>
              (\<forall>ma \<in> set mas. \<not> matches_case_insensitively (asm_id (assembly ma)) asmName))"
proof -
  let ?P = "\<lambda>ma. matches_case_insensitively (asm_id (assembly ma)) asmName"
  have b: "buildModelsAssembly imp t asmName i =
           (case find ?P mas of
              None \<Rightarrow> (t', Inl (AssemblyNotFound asmName))
            | Some ma \<Rightarrow> (t', assembleFrom imp m' i ma))"
    using frame fmt cache find_cong_lower [OF lower, of mas] unfolding patched
    by (simp add: buildModelsAssembly_def Let_def)
  have "snd (buildModelsAssembly imp t asmName i) = Inl (AssemblyNotFound asmName) \<longleftrightarrow>
          find ?P mas = None"
    by (simp add: b assembleFrom_not_AssemblyNotFound split: option.splits)
  also have "\<dots> \<longleftrightarrow> (\<forall>ma \<in> set mas. \<not> ?P ma)"
    by (auto simp add: find_None_iff)
  finally show ?thesis
    using b by simp
qed

theorem lookup_lowercase_request_witness:
  "toLowerCase ''a'' = ''a''
   \<and> snd (buildModelsAssembly ex_imports (ex_trajectory ''A'') ''a'' 0) =
       Inr (Some \<lparr>units = [(100, 1), (101, 1), (102, 1), (103, 1), (104, 1)]\<rparr>)
   \<and> snd (buildModelsAssembly ex_imports (ex_trajectory ''A'') ''a'' 0) \<noteq>
       Inl (AssemblyNotFound ''a'')
   \<and> matches_case_insensitively (asm_id (assembly (ex_assembly ''A''))) ''a''"
proof -
  let ?m' = "patchEntityDescriptions (str_at (pdbx_model_name (frame (ex_data ''A''))) 0)
               (ex_model ''A'')"
  let ?t' = "(ex_trajectory ''A'')\<lparr>frames := (frames (ex_trajectory ''A''))[nat 0 := ?m']\<rparr>"
  have cache: "getOrBuildAssemblies ex_imports ?t' (ex_data ''A'') =
      Inr (?t'\<lparr>modelsAssemblies := Some [ex_assembly ''A'']\<rparr>, [ex_assembly ''A''])"
    by (rule ex_getOrBuildAssemblies) (simp add: ex_trajectory_def)
  have lower: "toLowerCase ''a'' = ''a''"
    by code_simp
  have m: "matches_case_insensitively (asm_id (assembly (ex_assembly ''A''))) ''a''"
    by (simp add: matches_case_insensitively_def ex_assembly_def toLowerCase_A lower)
  have a: "assembleFrom ex_imports ?m' 0 (ex_assembly ''A'') =
      Inr (Some \<lparr>units = [(100, 1), (101, 1), (102, 1), (103, 1), (104, 1)]\<rparr>)"
    by (simp add: assembleFrom_def ex_assembly_def js_index_def getStructure_def
        replicateUnits_def addWithOperator_def ex_imports_def)
  show ?thesis
    using lower m a
      lookup_lowercase_request [OF ex_getFrameAtIndex(1) ex_sourceData refl cache lower]
    by simp
qed

section \<open>A model index without an operator group\<close>

lemma missing_group_TypeError:
  assumes frame: "getFrameAtIndex t i = Inr m"
    and fmt: "sourceData m = MmcifFormat d"
    and cache: "getOrBuildAssemblies imp
                  (t\<lparr>frames := (frames t)[nat i :=
                      patchEntityDescriptions (str_at (pdbx_model_name (frame d)) i) m]\<rparr>) d =
                Inr (t', mas)"
    and found: "find (\<lambda>ma. toLowerCase (asm_id (assembly ma)) = asmName) mas = Some ma"
    and groups: "operatorGroups (assembly ma) = Inr gs"
    and group: "js_index gs i = None"
  shows "snd (buildModelsAssembly imp t asmName i) = Inl TypeError"
  using assms by (simp add: buildModelsAssembly_def assembleFrom_def Let_def)

text \<open>
  C4. The code does not do what the claim says: three frames over tables that give
  assembly \<open>1\<close> two operator groups, and a request for the third frame. The lookup finds
  the assembly, there is no group at index 2, and reading the operators of the missing
  group throws a \<open>TypeError\<close>, through the state transform as well.
\<close>

theorem missing_group_throws:
  "js_index [\<lparr>operators = [1::nat]\<rparr>, \<lparr>operators = [2, 3]\<rparr>] 2 = None
   \<and> modelsAssemblies (fst (buildModelsAssembly ex_imports (ex_trajectory ''1'') ''1'' 2)) =
       Some [\<lparr>assembly = \<lparr>asm_id = ''1'', asm_details = [],
                operatorGroups = Inr [\<lparr>operators = [1]\<rparr>, \<lparr>operators = [2, 3]\<rparr>]\<rparr>,
              modelNums = [10, 11]\<rparr>]
   \<and> snd (buildModelsAssembly ex_imports (ex_trajectory ''1'') ''1'' 2) = Inl TypeError
   \<and> snd (StructureFromPetworld_apply ex_imports ex_props (ex_trajectory ''1'') 2) = Inl TypeError"
proof -
  have empty: "modelsAssemblies (ex_trajectory ''1'') = None"
    by (simp add: ex_trajectory_def)
  have built: "createModelsAssemblies (getMatrices ex_imports) (operatorGroupsProvider ex_imports)
      (pdbx_struct_assembly (db (ex_data ''1''))) (pdbx_struct_assembly_gen (db (ex_data ''1'')))
      (pdbx_struct_oper_list (db (ex_data ''1''))) (gen_PDB_model_num (frame (ex_data ''1''))) =
      Inr [ex_assembly ''1'']"
    using ex_createModelsAssemblies [of "''1''"] by (simp add: ex_imports_def ex_data_def)
  have c: "modelsAssemblies (fst (buildModelsAssembly ex_imports (ex_trajectory ''1'') ''1'' 2)) =
      Some [ex_assembly ''1'']"
    by (rule build_first_stores [OF ex_getFrameAtIndex(3) ex_sourceData empty built])
  show ?thesis
    using c by (simp add: ex_build_1_2 apply_snd js_index_def ex_assembly_def)
qed

section \<open>The entity-description patch\<close>

lemma fold_update_other:
  "k \<notin> f ` set xs \<Longrightarrow> fold (\<lambda>e arr. arr(f e \<mapsto> v)) xs arr k = arr k"
  by (induction xs arbitrary: arr) simp_all

lemma build_frames:
  assumes "getFrameAtIndex t i = Inr m"
  shows "frames (fst (buildModelsAssembly imp t a i)) =
           (case sourceData m of
              OtherFormat \<Rightarrow> frames t
            | MmcifFormat d \<Rightarrow>
                (frames t)[nat i := patchEntityDescriptions (str_at (pdbx_model_name (frame d)) i) m])"
proof (cases "sourceData m")
  case OtherFormat
  then show ?thesis using assms by (simp add: buildModelsAssembly_def)
next
  case (MmcifFormat d)
  let ?m' = "patchEntityDescriptions (str_at (pdbx_model_name (frame d)) i) m"
  let ?t' = "t\<lparr>frames := (frames t)[nat i := ?m']\<rparr>"
  show ?thesis
  proof (cases "getOrBuildAssemblies imp ?t' d")
    case (Inl e)
    then show ?thesis using assms MmcifFormat
      by (simp add: buildModelsAssembly_def Let_def)
  next
    case cache: (Inr r)
    obtain t'' mas where r: "r = (t'', mas)"
      by (cases r)
    have "frames t'' = frames ?t'"
      using cache r getOrBuildAssemblies_frames by blast
    then show ?thesis using assms MmcifFormat cache r
      by (simp add: buildModelsAssembly_def Let_def split: option.splits)
  qed
qed

lemma js_index_update_same:
  "js_index xs i = Some x \<Longrightarrow> js_index (xs[nat i := y]) i = Some y"
  by (simp add: js_index_def split: if_splits)

lemma getFrameAtIndex_Inr: "getFrameAtIndex t i = Inr m \<longleftrightarrow> js_index (frames t) i = Some m"
  by (simp add: getFrameAtIndex_def split: option.splits)

text \<open>
  C10. Whatever the outcome of the build, the model it resolved differs from the one
  before the call at most in its label and in the descriptions at the entity indices its
  chains refer to: its atomic hierarchy, its source data, the other columns of its entity
  table, the entity index and every description at another index are as they were.
\<close>

theorem patch_changes_label_and_descriptions_only:
  assumes frame: "getFrameAtIndex t i = Inr m"
  shows "\<exists>m'. getFrameAtIndex (fst (buildModelsAssembly imp t asmName i)) i = Inr m'
           \<and> atomicHierarchy m' = atomicHierarchy m
           \<and> sourceData m' = sourceData m
           \<and> getEntityIndex (entities m') = getEntityIndex (entities m)
           \<and> other_columns (data (entities m')) = other_columns (data (entities m))
           \<and> (\<forall>k. k \<notin> getEntityIndex (entities m) ` set (label_entity_id (atomicHierarchy m)) \<longrightarrow>
                  pdbx_description (data (entities m')) k = pdbx_description (data (entities m)) k)"
proof (cases "sourceData m")
  case OtherFormat
  then have "frames (fst (buildModelsAssembly imp t asmName i)) = frames t"
    using build_frames [OF frame, of imp asmName] by simp
  then have "getFrameAtIndex (fst (buildModelsAssembly imp t asmName i)) i = Inr m"
    using frame by (simp add: getFrameAtIndex_def)
  then show ?thesis
    by auto
next
  case (MmcifFormat d)
  let ?m' = "patchEntityDescriptions (str_at (pdbx_model_name (frame d)) i) m"
  have fr: "frames (fst (buildModelsAssembly imp t asmName i)) = (frames t)[nat i := ?m']"
    using build_frames [OF frame, of imp asmName] MmcifFormat by simp
  have ix: "js_index (frames t) i = Some m"
    using frame by (simp add: getFrameAtIndex_Inr)
  have same: "getFrameAtIndex (fst (buildModelsAssembly imp t asmName i)) i = Inr ?m'"
    by (simp add: getFrameAtIndex_Inr fr js_index_update_same [OF ix])
  have descr: "pdbx_description (data (entities ?m')) k = pdbx_description (data (entities m)) k"
    if "k \<notin> getEntityIndex (entities m) ` set (label_entity_id (atomicHierarchy m))" for k
    using that by (simp add: patchEntityDescriptions_def fold_update_other)
  have rest: "atomicHierarchy ?m' = atomicHierarchy m" "sourceData ?m' = sourceData m"
    "getEntityIndex (entities ?m') = getEntityIndex (entities m)"
    "other_columns (data (entities ?m')) = other_columns (data (entities m))"
    by (simp_all add: patchEntityDescriptions_def)
  show ?thesis
    using same descr rest by blast
qed

theorem patch_changes_label_and_descriptions_only_witness:
  "getFrameAtIndex (ex_trajectory ''1'') 1 = Inr (ex_model ''1'')
   \<and> (\<exists>m'. getFrameAtIndex (fst (buildModelsAssembly ex_imports (ex_trajectory ''1'') ''1'' 1)) 1 =
             Inr m'
        \<and> atomicHierarchy m' = atomicHierarchy (ex_model ''1'')
        \<and> sourceData m' = sourceData (ex_model ''1'')
        \<and> pdbx_description (data (entities m')) 1 = Some [''water''])"
proof -
  have k: "1 \<notin> getEntityIndex (entities (ex_model ''1'')) `
             set (label_entity_id (atomicHierarchy (ex_model ''1'')))"
    by (simp add: ex_model_def)
  have d: "pdbx_description (data (entities (ex_model ''1''))) 1 = Some [''water'']"
    by (simp add: ex_model_def)
  have f: "getFrameAtIndex (ex_trajectory ''1'') 1 = Inr (ex_model ''1'')"
    by (rule ex_getFrameAtIndex(2))
  show ?thesis
    using k d f
      patch_changes_label_and_descriptions_only [OF f, where imp = ex_imports and asmName = "''1''"]
    by (metis (no_types, lifting))
qed

end
